theory Spec2Isabelle
  imports Complex_Main "HOL-Library.Multiset"
begin

section \<open>Sound effects configuration (src/lib/sound-effects-config.ts)\<close>

text \<open>
  JavaScript numbers are modelled by exact numbers: frames, priorities and evaluations
  (centipawns) as \<open>int\<close>, volumes as \<open>rat\<close>; the rounding of floating-point products of
  volumes is not modelled, and no property below depends on it. A value that may be
  \<^verbatim>\<open>undefined\<close> is an \<open>option\<close>, with \<open>None\<close> for \<^verbatim>\<open>undefined\<close>. An exception is a
  value of \<open>error\<close>.
\<close>

datatype error = TypeError | ChessException

datatype SoundEffectCategory =
  piece_capture | crowd_reaction | atmosphere | clock | special_moves

text \<open>The field \<^verbatim>\<open>id\<close> of the source is \<open>ident\<close> here.\<close>

record SoundEffect =
  ident :: string
  category :: SoundEffectCategory
  path :: string
  volume :: "rat option"
  description :: string

text \<open>The library \<^verbatim>\<open>SOUND_EFFECTS: Record<SoundEffectCategory, SoundEffect[]>\<close>.\<close>

fun SOUND_EFFECTS :: "SoundEffectCategory \<Rightarrow> SoundEffect list" where
  "SOUND_EFFECTS piece_capture =
     [\<lparr>ident = ''capture-pawn'', category = piece_capture,
        path = ''sounds/pieces/capture-pawn.mp3'', volume = Some (4 / 10),
        description = ''Pawn capture sound''\<rparr>,
      \<lparr>ident = ''capture-minor'', category = piece_capture,
        path = ''sounds/pieces/capture-minor.mp3'', volume = Some (45 / 100),
        description = ''Knight/Bishop capture sound''\<rparr>,
      \<lparr>ident = ''capture-rook'', category = piece_capture,
        path = ''sounds/pieces/capture-rook.mp3'', volume = Some (5 / 10),
        description = ''Rook capture sound''\<rparr>,
      \<lparr>ident = ''capture-queen'', category = piece_capture,
        path = ''sounds/pieces/capture-queen.mp3'', volume = Some (6 / 10),
        description = ''Queen capture - dramatic''\<rparr>]"
| "SOUND_EFFECTS crowd_reaction =
     [\<lparr>ident = ''gasp-01'', category = crowd_reaction,
        path = ''sounds/crowd/gasp-01.mp3'', volume = Some (35 / 100),
        description = ''Crowd gasp for blunders''\<rparr>,
      \<lparr>ident = ''gasp-02'', category = crowd_reaction,
        path = ''sounds/crowd/gasp-02.mp3'', volume = Some (35 / 100),
        description = ''Crowd gasp variant''\<rparr>,
      \<lparr>ident = ''applause-01'', category = crowd_reaction,
        path = ''sounds/crowd/applause-01.mp3'', volume = Some (3 / 10),
        description = ''Applause for brilliant moves''\<rparr>,
      \<lparr>ident = ''applause-02'', category = crowd_reaction,
        path = ''sounds/crowd/applause-02.mp3'', volume = Some (3 / 10),
        description = ''Applause variant''\<rparr>,
      \<lparr>ident = ''murmur'', category = crowd_reaction,
        path = ''sounds/crowd/murmur.mp3'', volume = Some (2 / 10),
        description = ''Low crowd murmur for tense moments''\<rparr>,
      \<lparr>ident = ''cheer'', category = crowd_reaction,
        path = ''sounds/crowd/cheer.mp3'', volume = Some (4 / 10),
        description = ''Victory cheer for checkmate''\<rparr>]"
| "SOUND_EFFECTS atmosphere =
     [\<lparr>ident = ''tournament-hall'', category = atmosphere,
        path = ''sounds/atmosphere/tournament-hall.mp3'', volume = Some (15 / 100),
        description = ''Background tournament ambience''\<rparr>,
      \<lparr>ident = ''chess-pieces-background'', category = atmosphere,
        path = ''sounds/atmosphere/pieces-background.mp3'', volume = Some (1 / 10),
        description = ''Subtle background piece movement sounds''\<rparr>]"
| "SOUND_EFFECTS clock =
     [\<lparr>ident = ''clock-tick'', category = clock,
        path = ''sounds/clock/tick.mp3'', volume = Some (25 / 100),
        description = ''Chess clock ticking''\<rparr>,
      \<lparr>ident = ''clock-tick-fast'', category = clock,
        path = ''sounds/clock/tick-fast.mp3'', volume = Some (3 / 10),
        description = ''Faster ticking for time pressure''\<rparr>,
      \<lparr>ident = ''clock-press'', category = clock,
        path = ''sounds/clock/press.mp3'', volume = Some (3 / 10),
        description = ''Clock press sound''\<rparr>]"
| "SOUND_EFFECTS special_moves =
     [\<lparr>ident = ''check'', category = special_moves,
        path = ''sounds/special/check.mp3'', volume = Some (4 / 10),
        description = ''Check sound''\<rparr>,
      \<lparr>ident = ''checkmate'', category = special_moves,
        path = ''sounds/special/checkmate.mp3'', volume = Some (5 / 10),
        description = ''Checkmate sound''\<rparr>,
      \<lparr>ident = ''castle'', category = special_moves,
        path = ''sounds/special/castle.mp3'', volume = Some (35 / 100),
        description = ''Castling sound''\<rparr>,
      \<lparr>ident = ''promotion'', category = special_moves,
        path = ''sounds/special/promotion.mp3'', volume = Some (4 / 10),
        description = ''Pawn promotion sound''\<rparr>]"

text \<open>\<^verbatim>\<open>Object.values(SOUND_EFFECTS)\<close>: the categories' lists in the order of the keys.\<close>

definition SOUND_EFFECTS_values :: "SoundEffect list list" where
  "SOUND_EFFECTS_values =
     map SOUND_EFFECTS [piece_capture, crowd_reaction, atmosphere, clock, special_moves]"

text \<open>Reading an array at an index: \<^verbatim>\<open>undefined\<close> out of range.\<close>

definition at_index :: "'a list \<Rightarrow> nat \<Rightarrow> 'a option" where
  "at_index xs i = (if i < length xs then Some (xs ! i) else None)"

text \<open>\<^verbatim>\<open>getSoundEffect\<close>: the loop over the categories, the first match returned.\<close>

fun getSoundEffect_scan :: "SoundEffect list list \<Rightarrow> string \<Rightarrow> SoundEffect option" where
  "getSoundEffect_scan [] i = None"
| "getSoundEffect_scan (c # cs) i =
     (case find (\<lambda>e. ident e = i) c of
        Some effect \<Rightarrow> Some effect
      | None \<Rightarrow> getSoundEffect_scan cs i)"

definition getSoundEffect :: "string \<Rightarrow> SoundEffect option" where
  "getSoundEffect i = getSoundEffect_scan SOUND_EFFECTS_values i"

text \<open>
  \<^verbatim>\<open>getRandomSound\<close> reads \<^verbatim>\<open>sounds[Math.floor(Math.random() * sounds.length)]\<close>.
  \<^verbatim>\<open>Math.random()\<close> lies in \<open>[0, 1)\<close>, so the index is any of \<open>0 .. length - 1\<close>;
  the draw is the parameter \<open>r\<close>, and the index it selects is \<open>r mod length\<close>.
\<close>

definition getRandomSound :: "nat \<Rightarrow> SoundEffectCategory \<Rightarrow> SoundEffect option" where
  "getRandomSound r c =
     (let sounds = SOUND_EFFECTS c in at_index sounds (r mod length sounds))"

text \<open>
  \<^verbatim>\<open>String.prototype.toLowerCase\<close> on the ASCII letters: an upper-case letter (codes 65
  to 90) becomes the letter 32 above it. Every other character is left as it is; in
  JavaScript no character outside ASCII lowers to one of the letters \<open>p\<close>, \<open>n\<close>, \<open>b\<close>,
  \<open>r\<close>, \<open>q\<close> that \<^verbatim>\<open>getCaptureSound\<close> compares with.
\<close>

definition toLowerCase_char :: "char \<Rightarrow> char" where
  "toLowerCase_char c =
     (let n = (of_char c :: nat) in if 65 \<le> n \<and> n \<le> 90 then char_of (n + 32) else c)"

definition toLowerCase :: "string \<Rightarrow> string" where
  "toLowerCase s = map toLowerCase_char s"

definition getCaptureSound :: "string \<Rightarrow> SoundEffect option" where
  "getCaptureSound capturedPiece =
     (let piece = toLowerCase capturedPiece in
      if piece = ''p'' then at_index (SOUND_EFFECTS piece_capture) 0
      else if piece = ''n'' \<or> piece = ''b'' then at_index (SOUND_EFFECTS piece_capture) 1
      else if piece = ''r'' then at_index (SOUND_EFFECTS piece_capture) 2
      else if piece = ''q'' then at_index (SOUND_EFFECTS piece_capture) 3
      else at_index (SOUND_EFFECTS piece_capture) 0)"

record SoundEffectSettings =
  enabled :: bool
  capturesEnabled :: bool
  crowdEnabled :: bool
  atmosphereEnabled :: bool
  clockEnabled :: bool
  specialMovesEnabled :: bool
  masterVolume :: rat

definition DEFAULT_SOUND_SETTINGS :: SoundEffectSettings where
  "DEFAULT_SOUND_SETTINGS =
     \<lparr>enabled = True, capturesEnabled = True, crowdEnabled = True,
      atmosphereEnabled = True, clockEnabled = False, specialMovesEnabled = True,
      masterVolume = 1\<rparr>"

section \<open>Sound effect triggers (src/lib/sound-effect-triggers.ts)\<close>

record MoveAnalysis =
  move :: string
  fen :: string
  evaluation :: "int option"
  previousEvaluation :: "int option"
  capturedPiece :: "string option"
  isCheck :: bool
  isCheckmate :: bool
  isCastle :: bool
  isPromotion :: bool
  moveNumber :: nat

record SoundTrigger =
  soundEffect :: SoundEffect
  startFrame :: int
  priority :: int

text \<open>\<^verbatim>\<open>String.prototype.includes\<close>: \<open>sub\<close> occurs in \<open>s\<close> as a contiguous block.\<close>

fun includes_str :: "string \<Rightarrow> string \<Rightarrow> bool" where
  "includes_str [] sub = (sub = [])"
| "includes_str (c # cs) sub = (take (length sub) (c # cs) = sub \<or> includes_str cs sub)"

text \<open>\<^verbatim>\<open>v || d\<close> on an optional number: \<^verbatim>\<open>undefined\<close> and \<open>0\<close> are falsy.\<close>

definition or_default :: "rat option \<Rightarrow> rat \<Rightarrow> rat" where
  "or_default v d = (case v of None \<Rightarrow> d | Some x \<Rightarrow> if x = 0 then d else x)"

text \<open>
  The function mapped over the sounds at the end of \<^verbatim>\<open>analyzeMoveForSounds\<close>:
  \<^verbatim>\<open>sound => ({...sound, volume: (sound.volume || 0.5) * settings.masterVolume})\<close>.
\<close>

definition applyMasterVolume :: "SoundEffectSettings \<Rightarrow> SoundEffect \<Rightarrow> SoundEffect" where
  "applyMasterVolume settings sound =
     sound\<lparr>volume := Some (or_default (volume sound) (1 / 2) * masterVolume settings)\<rparr>"

text \<open>
  The array \<^verbatim>\<open>sounds\<close> may hold \<^verbatim>\<open>undefined\<close> (the results of
  \<^verbatim>\<open>getCaptureSound\<close> and \<^verbatim>\<open>getRandomSound\<close> are pushed unchecked); reading
  \<^verbatim>\<open>sound.volume\<close> of \<^verbatim>\<open>undefined\<close> in the final map throws a TypeError.
\<close>

fun mapMasterVolume :: "SoundEffectSettings \<Rightarrow> SoundEffect option list \<Rightarrow> error + SoundEffect list" where
  "mapMasterVolume settings [] = Inr []"
| "mapMasterVolume settings (None # rest) = Inl TypeError"
| "mapMasterVolume settings (Some sound # rest) =
     (case mapMasterVolume settings rest of
        Inl e \<Rightarrow> Inl e
      | Inr done \<Rightarrow> Inr (applyMasterVolume settings sound # done))"

text \<open>\<^verbatim>\<open>if (x) sounds.push(x)\<close> for a looked-up sound \<open>x\<close>.\<close>

definition push_if_found :: "SoundEffect option list \<Rightarrow> SoundEffect option \<Rightarrow> SoundEffect option list" where
  "push_if_found sounds x = (case x of Some s \<Rightarrow> sounds @ [Some s] | None \<Rightarrow> sounds)"

text \<open>
  \<^verbatim>\<open>analyzeMoveForSounds\<close>. \<open>r\<close> is the draw of \<^verbatim>\<open>Math.random\<close>, which the function
  makes at most once. \<open>sounds1\<close>, \<open>sounds2\<close>, \<open>sounds3\<close> are the array \<^verbatim>\<open>sounds\<close>
  after the special-move block, the capture block and the crowd block.
\<close>

definition analyzeMoveForSounds ::
  "MoveAnalysis \<Rightarrow> SoundEffectSettings \<Rightarrow> nat \<Rightarrow> error + SoundEffect list" where
  "analyzeMoveForSounds analysis settings r =
     (if \<not> enabled settings then Inr []
      else
        let sounds1 =
              (if specialMovesEnabled settings then
                 (if isCheckmate analysis then push_if_found [] (getSoundEffect ''checkmate'')
                  else if isCheck analysis then push_if_found [] (getSoundEffect ''check'')
                  else if isCastle analysis then push_if_found [] (getSoundEffect ''castle'')
                  else if isPromotion analysis then push_if_found [] (getSoundEffect ''promotion'')
                  else [])
               else []);
            sounds2 =
              (case capturedPiece analysis of
                 Some piece \<Rightarrow>
                   if capturesEnabled settings \<and> piece \<noteq> [] then sounds1 @ [getCaptureSound piece]
                   else sounds1
               | None \<Rightarrow> sounds1);
            sounds3 =
              (case (evaluation analysis, previousEvaluation analysis) of
                 (Some ev, Some prev) \<Rightarrow>
                   if crowdEnabled settings then
                     (let evalChange = \<bar>ev - prev\<bar> in
                      if evalChange > 200 then sounds2 @ [getRandomSound r crowd_reaction]
                      else if ev - prev > 150 then
                        push_if_found sounds2
                          (find (\<lambda>s. includes_str (ident s) ''applause'') (SOUND_EFFECTS crowd_reaction))
                      else sounds2)
                   else sounds2
               | _ \<Rightarrow> sounds2)
        in mapMasterVolume settings sounds3)"

text \<open>The phases \<^verbatim>\<open>'opening' | 'middlegame' | 'endgame'\<close>.\<close>

datatype gamePhase = phase_opening | phase_middlegame | phase_endgame


subsection \<open>The chess library\<close>

text \<open>
  chess.js is an external library. What \<^verbatim>\<open>parseMoveForAnalysis\<close> uses of it is a
  parameter: the board state \<open>'c\<close>, \<^verbatim>\<open>new Chess()\<close>, \<^verbatim>\<open>chess.move\<close> (which updates
  the board and returns a move object, returns \<^verbatim>\<open>null\<close> or throws), \<^verbatim>\<open>chess.fen\<close>,
  \<^verbatim>\<open>chess.isCheck\<close> and \<^verbatim>\<open>chess.isCheckmate\<close>.
\<close>

record MoveObj =
  captured :: "string option"
  san :: string
  promotion :: "string option"

record 'c ChessApi =
  newChess :: 'c
  chessMove :: "'c \<Rightarrow> string \<Rightarrow> error + ('c \<times> MoveObj option)"
  chessFen :: "'c \<Rightarrow> string"
  chessIsCheck :: "'c \<Rightarrow> bool"
  chessIsCheckmate :: "'c \<Rightarrow> bool"

definition parseMoveForAnalysis ::
  "'c ChessApi \<Rightarrow> 'c \<Rightarrow> string \<Rightarrow> nat \<Rightarrow> int option \<Rightarrow> int option \<Rightarrow> error + ('c \<times> MoveAnalysis)" where
  "parseMoveForAnalysis api chess mv moveNo previousEval currentEval =
     (case chessMove api chess mv of
        Inl e \<Rightarrow> Inl e
      | Inr (chess', moveObj) \<Rightarrow>
          Inr (chess',
            \<lparr>move = mv,
             fen = chessFen api chess',
             evaluation = currentEval,
             previousEvaluation = previousEval,
             capturedPiece = (case moveObj of None \<Rightarrow> None | Some m \<Rightarrow> captured m),
             isCheck = chessIsCheck api chess',
             isCheckmate = chessIsCheckmate api chess',
             isCastle = (case moveObj of None \<Rightarrow> False | Some m \<Rightarrow> includes_str (san m) ''O-O''),
             isPromotion = (case moveObj of None \<Rightarrow> False | Some m \<Rightarrow> promotion m \<noteq> None),
             moveNumber = moveNo\<rparr>))"

text \<open>The parameters with defaults are explicit; \<open>fps\<close> is not used by the source either.\<close>

definition calculateSoundFrameTiming :: "int \<Rightarrow> int \<Rightarrow> int \<Rightarrow> int \<Rightarrow> int" where
  "calculateSoundFrameTiming moveIndex fps introDuration frameDurationPerMove =
     introDuration + (moveIndex * frameDurationPerMove)"

text \<open>The \<^verbatim>\<open>default\<close> case of the source's switch is no category of the type.\<close>

fun getPriority :: "SoundEffect \<Rightarrow> int" where
  "getPriority sound =
     (case category sound of
        special_moves \<Rightarrow> 5
      | crowd_reaction \<Rightarrow> 4
      | piece_capture \<Rightarrow> 3
      | clock \<Rightarrow> 2
      | atmosphere \<Rightarrow> 1)"

text \<open>The inner \<^verbatim>\<open>sounds.forEach((sound, soundIndex) => triggers.push(...))\<close>.\<close>

definition stampSounds :: "int \<Rightarrow> SoundEffect list \<Rightarrow> SoundTrigger list" where
  "stampSounds frameStart sounds =
     map (\<lambda>(soundIndex, sound).
            \<lparr>soundEffect = sound,
             startFrame = frameStart + (int soundIndex * 5),
             priority = getPriority sound\<rparr>)
         (enumerate 0 sounds)"

text \<open>\<^verbatim>\<open>evaluations[index]\<close>: \<^verbatim>\<open>undefined\<close> when stored so or out of range.\<close>

definition evaluationAt :: "int option list \<Rightarrow> nat \<Rightarrow> int option" where
  "evaluationAt evaluations index =
     (if index < length evaluations then evaluations ! index else None)"

text \<open>
  The outer \<^verbatim>\<open>moves.forEach((move, index) => ...)\<close> of \<^verbatim>\<open>generateSoundSchedule\<close>,
  with its state explicit: the board, \<^verbatim>\<open>previousEval\<close> and \<^verbatim>\<open>triggers\<close>.
  \<open>rnd index\<close> is the draw of \<^verbatim>\<open>Math.random\<close> while move \<open>index\<close> is analysed.
\<close>

fun forEachMove ::
  "'c ChessApi \<Rightarrow> int option list \<Rightarrow> SoundEffectSettings \<Rightarrow> int \<Rightarrow> (nat \<Rightarrow> nat) \<Rightarrow>
   string list \<Rightarrow> nat \<Rightarrow> 'c \<Rightarrow> int option \<Rightarrow> SoundTrigger list \<Rightarrow> error + SoundTrigger list" where
  "forEachMove api evaluations settings fps rnd [] index chess previousEval triggers = Inr triggers"
| "forEachMove api evaluations settings fps rnd (mv # rest) index chess previousEval triggers =
     (let currentEval = evaluationAt evaluations index in
      case parseMoveForAnalysis api chess mv (index + 1) previousEval currentEval of
        Inl e \<Rightarrow> Inl e
      | Inr (chess', analysis) \<Rightarrow>
          (case analyzeMoveForSounds analysis settings (rnd index) of
             Inl e \<Rightarrow> Inl e
           | Inr sounds \<Rightarrow>
               (let frameStart = calculateSoundFrameTiming (int index) fps 90 30 in
                forEachMove api evaluations settings fps rnd rest (index + 1) chess' currentEval
                  (triggers @ stampSounds frameStart sounds))))"

text \<open>The comparator of the final sort.\<close>

definition compareTriggers :: "SoundTrigger \<Rightarrow> SoundTrigger \<Rightarrow> int" where
  "compareTriggers a b =
     (if startFrame a \<noteq> startFrame b then startFrame a - startFrame b
      else priority b - priority a)"

text \<open>
  \<^verbatim>\<open>Array.prototype.sort\<close> with a comparator is a stable sort: here insertion sort,
  in which an element goes before the first element it does not compare greater than,
  and the elements are inserted from the last to the first.
\<close>

fun insertSorted :: "('a \<Rightarrow> 'a \<Rightarrow> int) \<Rightarrow> 'a \<Rightarrow> 'a list \<Rightarrow> 'a list" where
  "insertSorted cmp x [] = [x]"
| "insertSorted cmp x (y # ys) =
     (if cmp x y \<le> 0 then x # y # ys else y # insertSorted cmp x ys)"

definition sortWith :: "('a \<Rightarrow> 'a \<Rightarrow> int) \<Rightarrow> 'a list \<Rightarrow> 'a list" where
  "sortWith cmp xs = foldr (insertSorted cmp) xs []"

definition generateSoundSchedule ::
  "'c ChessApi \<Rightarrow> string list \<Rightarrow> int option list \<Rightarrow> SoundEffectSettings \<Rightarrow> int \<Rightarrow> (nat \<Rightarrow> nat) \<Rightarrow>
   error + SoundTrigger list" where
  "generateSoundSchedule api moves evaluations settings fps rnd =
     (case forEachMove api evaluations settings fps rnd moves 0 (newChess api) None [] of
        Inl e \<Rightarrow> Inl e
      | Inr triggers \<Rightarrow> Inr (sortWith compareTriggers triggers))"

text \<open>
  \<^verbatim>\<open>filterOverlappingSounds\<close>: \<open>hasConflict\<close> is the \<^verbatim>\<open>filtered.some(...)\<close> test,
  the fold is the \<^verbatim>\<open>triggers.forEach\<close> that pushes onto \<^verbatim>\<open>filtered\<close>.
\<close>

definition hasConflict :: "int \<Rightarrow> SoundTrigger list \<Rightarrow> SoundTrigger \<Rightarrow> bool" where
  "hasConflict maxFrameDistance filtered trigger =
     list_ex (\<lambda>existing.
        \<bar>startFrame existing - startFrame trigger\<bar> < maxFrameDistance \<and>
        priority existing \<ge> priority trigger) filtered"

definition filterOverlappingSounds :: "SoundTrigger list \<Rightarrow> int \<Rightarrow> SoundTrigger list" where
  "filterOverlappingSounds triggers maxFrameDistance =
     foldl (\<lambda>filtered trigger.
              if \<not> hasConflict maxFrameDistance filtered trigger then filtered @ [trigger]
              else filtered)
           [] triggers"

section \<open>The Priority Resolver as the specification words it\<close>

text \<open>
  Process the cues in their given order and maintain a kept list; a candidate \<open>c\<close> is
  discarded if some kept cue \<open>k\<close> has \<open>|k.startFrame - c.startFrame| < W\<close> and
  \<open>k.priority >= c.priority\<close>, and is added to the kept list otherwise.
\<close>

fun greedyResolver :: "int \<Rightarrow> SoundTrigger list \<Rightarrow> SoundTrigger list \<Rightarrow> SoundTrigger list" where
  "greedyResolver W kept [] = kept"
| "greedyResolver W kept (c # cs) =
     (if (\<exists>k \<in> set kept. \<bar>startFrame k - startFrame c\<bar> < W \<and> priority k \<ge> priority c)
      then greedyResolver W kept cs
      else greedyResolver W (kept @ [c]) cs)"

section \<open>Auxiliary definitions of the proofs\<close>

text \<open>One step of the loop of \<^verbatim>\<open>filterOverlappingSounds\<close>.\<close>

definition filterStep :: "int \<Rightarrow> SoundTrigger list \<Rightarrow> SoundTrigger \<Rightarrow> SoundTrigger list" where
  "filterStep W filtered trigger =
     (if \<not> hasConflict W filtered trigger then filtered @ [trigger] else filtered)"

text \<open>No cue of the list conflicts with the cues before it.\<close>

definition conflictFree :: "int \<Rightarrow> SoundTrigger list \<Rightarrow> bool" where
  "conflictFree W ks = (\<forall>n < length ks. \<not> hasConflict W (take n ks) (ks ! n))"

text \<open>The order the comparator of the final sort decides.\<close>

definition trigLe :: "SoundTrigger \<Rightarrow> SoundTrigger \<Rightarrow> bool" where
  "trigLe a b = (compareTriggers a b \<le> 0)"

text \<open>The index into \<^verbatim>\<open>SOUND_EFFECTS.piece_capture\<close> that \<^verbatim>\<open>getCaptureSound\<close> reads.\<close>

definition captureTier :: "string \<Rightarrow> nat" where
  "captureTier code =
     (let piece = toLowerCase code in
      if piece = ''p'' then 0
      else if piece = ''n'' \<or> piece = ''b'' then 1
      else if piece = ''r'' then 2
      else if piece = ''q'' then 3
      else 0)"

text \<open>
  The cues each block of \<^verbatim>\<open>analyzeMoveForSounds\<close> pushes, with the lookups in the
  library resolved (lemma \<open>analyze_cues\<close> below).
\<close>

definition specialCues :: "MoveAnalysis \<Rightarrow> SoundEffectSettings \<Rightarrow> SoundEffect list" where
  "specialCues a s =
     (if specialMovesEnabled s then
        (if isCheckmate a then [SOUND_EFFECTS special_moves ! 1]
         else if isCheck a then [SOUND_EFFECTS special_moves ! 0]
         else if isCastle a then [SOUND_EFFECTS special_moves ! 2]
         else if isPromotion a then [SOUND_EFFECTS special_moves ! 3]
         else [])
      else [])"

definition captureCues :: "MoveAnalysis \<Rightarrow> SoundEffectSettings \<Rightarrow> SoundEffect list" where
  "captureCues a s =
     (case capturedPiece a of
        Some piece \<Rightarrow>
          if capturesEnabled s \<and> piece \<noteq> [] then [SOUND_EFFECTS piece_capture ! captureTier piece]
          else []
      | None \<Rightarrow> [])"

definition crowdCues :: "MoveAnalysis \<Rightarrow> SoundEffectSettings \<Rightarrow> nat \<Rightarrow> SoundEffect list" where
  "crowdCues a s r =
     (case (evaluation a, previousEvaluation a) of
        (Some ev, Some prev) \<Rightarrow>
          if crowdEnabled s then
            (if \<bar>ev - prev\<bar> > 200 then [SOUND_EFFECTS crowd_reaction ! (r mod 6)]
             else if ev - prev > 150 then [SOUND_EFFECTS crowd_reaction ! 2]
             else [])
          else []
      | _ \<Rightarrow> [])"

section \<open>A concrete game\<close>

text \<open>
  An instance of the chess library that replays recorded answers: the board is the
  current position (FEN, in check, checkmated) and the answers still to come, each the
  move object \<^verbatim>\<open>chess.move\<close> returns and the position after it. A move beyond the
  record throws.
\<close>

type_synonym position = "string \<times> bool \<times> bool"

definition replayChess ::
  "(MoveObj option \<times> position) list \<Rightarrow> (position \<times> (MoveObj option \<times> position) list) ChessApi" where
  "replayChess script =
     \<lparr>newChess = ((''rnbqkbnr/pppppppp/8/8/8/8/PPPPPPPP/RNBQKBNR w KQkq - 0 1'', False, False), script),
      chessMove = (\<lambda>(pos, rest) mv.
         case rest of
           [] \<Rightarrow> Inl ChessException
         | (moveObj, pos') # rest' \<Rightarrow> Inr ((pos', rest'), moveObj)),
      chessFen = (\<lambda>((f, c, m), rest). f),
      chessIsCheck = (\<lambda>((f, c, m), rest). c),
      chessIsCheckmate = (\<lambda>((f, c, m), rest). m)\<rparr>"

text \<open>The game 1. e4 e5 2. Qh5 Ke7 3. Qxe5 mate: the last move takes a pawn and mates.\<close>

definition quickMate :: "(MoveObj option \<times> position) list" where
  "quickMate =
     [(Some \<lparr>captured = None, san = ''e4'', promotion = None\<rparr>,
       (''rnbqkbnr/pppppppp/8/8/4P3/8/PPPP1PPP/RNBQKBNR b KQkq - 0 1'', False, False)),
      (Some \<lparr>captured = None, san = ''e5'', promotion = None\<rparr>,
       (''rnbqkbnr/pppp1ppp/8/4p3/4P3/8/PPPP1PPP/RNBQKBNR w KQkq - 0 2'', False, False)),
      (Some \<lparr>captured = None, san = ''Qh5'', promotion = None\<rparr>,
       (''rnbqkbnr/pppp1ppp/8/4p2Q/4P3/8/PPPP1PPP/RNB1KBNR b KQkq - 1 2'', False, False)),
      (Some \<lparr>captured = None, san = ''Ke7'', promotion = None\<rparr>,
       (''rnbq1bnr/ppppkppp/8/4p2Q/4P3/8/PPPP1PPP/RNB1KBNR w KQ - 2 3'', False, False)),
      (Some \<lparr>captured = Some ''p'', san = ''Qxe5#'', promotion = None\<rparr>,
       (''rnbq1bnr/ppppkppp/8/4Q3/4P3/8/PPPP1PPP/RNB1KBNR b KQ - 0 3'', True, True))]"

definition quickMate_moves :: "string list" where
  "quickMate_moves = [''e4'', ''e5'', ''Qh5'', ''Ke7'', ''Qxe5#'']"

text \<open>Evaluations of the first four positions; the fourth swings by 380.\<close>

definition quickMate_evaluations :: "int option list" where
  "quickMate_evaluations = [Some 30, Some 35, Some 20, Some 400]"

text \<open>The analysis of the mating move, with evaluations 250 after 30 for the crowd block.\<close>

definition mateAnalysis :: MoveAnalysis where
  "mateAnalysis =
     \<lparr>move = ''Qxe5#'',
      fen = ''rnbq1bnr/ppppkppp/8/4Q3/4P3/8/PPPP1PPP/RNB1KBNR b KQ - 0 3'',
      evaluation = Some 250, previousEvaluation = Some 30,
      capturedPiece = Some ''p'',
      isCheck = True, isCheckmate = True, isCastle = False, isPromotion = False,
      moveNumber = 5\<rparr>"

text \<open>A trigger as \<^verbatim>\<open>generateSoundSchedule\<close> builds it, for a sound and a frame.\<close>

definition cueAt :: "SoundEffect \<Rightarrow> int \<Rightarrow> SoundTrigger" where
  "cueAt sound frame = \<lparr>soundEffect = sound, startFrame = frame, priority = getPriority sound\<rparr>"

definition gaspCue :: SoundTrigger where
  "gaspCue = cueAt (applyMasterVolume DEFAULT_SOUND_SETTINGS (SOUND_EFFECTS crowd_reaction ! 0)) 180"

definition mateCue :: SoundTrigger where
  "mateCue = cueAt (applyMasterVolume DEFAULT_SOUND_SETTINGS (SOUND_EFFECTS special_moves ! 1)) 210"

definition pawnCue :: SoundTrigger where
  "pawnCue = cueAt (applyMasterVolume DEFAULT_SOUND_SETTINGS (SOUND_EFFECTS piece_capture ! 0)) 215"

section \<open>Lookups in the library\<close>

lemma getSoundEffect_checkmate:
  "getSoundEffect ''checkmate'' = Some (SOUND_EFFECTS special_moves ! 1)"
  by (simp add: getSoundEffect_def SOUND_EFFECTS_values_def)

lemma getSoundEffect_check:
  "getSoundEffect ''check'' = Some (SOUND_EFFECTS special_moves ! 0)"
  by (simp add: getSoundEffect_def SOUND_EFFECTS_values_def)

lemma getSoundEffect_castle:
  "getSoundEffect ''castle'' = Some (SOUND_EFFECTS special_moves ! 2)"
  by (simp add: getSoundEffect_def SOUND_EFFECTS_values_def)

lemma getSoundEffect_promotion:
  "getSoundEffect ''promotion'' = Some (SOUND_EFFECTS special_moves ! 3)"
  by (simp add: getSoundEffect_def SOUND_EFFECTS_values_def)


lemmas lookups =
  getSoundEffect_checkmate getSoundEffect_check getSoundEffect_castle getSoundEffect_promotion

lemma captureTier_less: "captureTier code < 4"
  by (simp add: captureTier_def Let_def)

lemma getCaptureSound_tier:
  "getCaptureSound code = Some (SOUND_EFFECTS piece_capture ! captureTier code)"
  by (simp add: getCaptureSound_def captureTier_def Let_def at_index_def)

lemma category_piece_capture:
  "i < 4 \<Longrightarrow> category (SOUND_EFFECTS piece_capture ! i) = piece_capture"
  by (simp add: nth_Cons')

lemma category_crowd:
  "i < 6 \<Longrightarrow> category (SOUND_EFFECTS crowd_reaction ! i) = crowd_reaction"
  by (simp add: nth_Cons')

lemma length_crowd: "length (SOUND_EFFECTS crowd_reaction) = 6"
  by simp

lemma getRandomSound_crowd:
  "getRandomSound r crowd_reaction = Some (SOUND_EFFECTS crowd_reaction ! (r mod 6))"
  by (simp add: getRandomSound_def at_index_def Let_def length_crowd del: SOUND_EFFECTS.simps)

lemma find_applause:
  "find (\<lambda>s. includes_str (ident s) ''applause'') (SOUND_EFFECTS crowd_reaction) =
   Some (SOUND_EFFECTS crowd_reaction ! 2)"
  by simp

section \<open>The overlap filter\<close>

lemma filter_fold: "filterOverlappingSounds triggers W = foldl (filterStep W) [] triggers"
  by (simp add: filterOverlappingSounds_def filterStep_def[abs_def])

lemma hasConflict_iff:
  "hasConflict W kept c \<longleftrightarrow>
   (\<exists>k \<in> set kept. \<bar>startFrame k - startFrame c\<bar> < W \<and> priority k \<ge> priority c)"
  by (simp add: hasConflict_def list_ex_iff)

lemma fold_greedy: "foldl (filterStep W) kept cs = greedyResolver W kept cs"
  by (induction cs arbitrary: kept) (auto simp add: filterStep_def hasConflict_iff)

lemma filter_snoc:
  "filterOverlappingSounds (xs @ [c]) W = filterStep W (filterOverlappingSounds xs W) c"
  by (simp add: filter_fold)

lemma conflictFree_snoc:
  "conflictFree W (ks @ [k]) \<longleftrightarrow> conflictFree W ks \<and> \<not> hasConflict W ks k"
  by (auto simp: conflictFree_def less_Suc_eq nth_append)

lemma conflictFree_fold:
  "conflictFree W kept \<Longrightarrow> conflictFree W (foldl (filterStep W) kept cs)"
  by (induction cs arbitrary: kept) (simp_all add: filterStep_def conflictFree_snoc)

lemma fold_conflictFree_id:
  "conflictFree W (kept @ cs) \<Longrightarrow> foldl (filterStep W) kept cs = kept @ cs"
proof (induction cs arbitrary: kept)
  case Nil
  then show ?case by simp
next
  case (Cons c cs)
  from Cons.prems have cf: "conflictFree W ((kept @ [c]) @ cs)" by simp
  have "\<not> hasConflict W kept c"
    using Cons.prems by (auto simp: conflictFree_def dest!: spec[of _ "length kept"])
  then have "filterStep W kept c = kept @ [c]" by (simp add: filterStep_def)
  with Cons.IH[OF cf] show ?case by simp
qed

lemma getPriority_values:
  "getPriority (SOUND_EFFECTS piece_capture ! 0) = 3"
  "getPriority (SOUND_EFFECTS special_moves ! 0) = 5"
  "getPriority (SOUND_EFFECTS piece_capture ! 3) = 3"
  by simp_all

text \<open>
  C2. Of two cues of priorities 5 and 3 whose start frames are 5 apart, the filter with
  window 15 keeps only the priority-5 cue when that cue comes first in the input; when
  the priority-3 cue comes first, the filter keeps both, against the function's own
  description ("keeps only the highest priority sound within a 15-frame window"). Two
  cues of priority 3 whose start frames are 20 apart are both kept. The last equation
  is the same effect on cues as \<^verbatim>\<open>generateSoundSchedule\<close> stamps them: a capture
  (priority 3) followed 5 frames later by the crowd reaction (priority 4) of the same
  move.
\<close>

theorem filterOverlappingSounds_lower_priority_first:
  "priority (cueAt (SOUND_EFFECTS piece_capture ! 0) 100) = 3 \<and>
   priority (cueAt (SOUND_EFFECTS special_moves ! 0) 105) = 5 \<and>
   filterOverlappingSounds
     [cueAt (SOUND_EFFECTS piece_capture ! 0) 100, cueAt (SOUND_EFFECTS special_moves ! 0) 105] 15 =
     [cueAt (SOUND_EFFECTS piece_capture ! 0) 100, cueAt (SOUND_EFFECTS special_moves ! 0) 105] \<and>
   filterOverlappingSounds
     [cueAt (SOUND_EFFECTS special_moves ! 0) 105, cueAt (SOUND_EFFECTS piece_capture ! 0) 100] 15 =
     [cueAt (SOUND_EFFECTS special_moves ! 0) 105] \<and>
   filterOverlappingSounds
     [cueAt (SOUND_EFFECTS piece_capture ! 0) 100, cueAt (SOUND_EFFECTS piece_capture ! 3) 120] 15 =
     [cueAt (SOUND_EFFECTS piece_capture ! 0) 100, cueAt (SOUND_EFFECTS piece_capture ! 3) 120] \<and>
   filterOverlappingSounds
     [cueAt (SOUND_EFFECTS piece_capture ! 0) 150, cueAt (SOUND_EFFECTS crowd_reaction ! 0) 155] 15 =
     [cueAt (SOUND_EFFECTS piece_capture ! 0) 150, cueAt (SOUND_EFFECTS crowd_reaction ! 0) 155]"
  by (simp add: filterOverlappingSounds_def hasConflict_def cueAt_def)

text \<open>
  C3. \<^verbatim>\<open>filterOverlappingSounds\<close> is the greedy algorithm of the specification: it
  equals \<open>greedyResolver\<close> started with an empty kept list; a candidate \<open>c\<close> that
  follows the triggers \<open>triggers\<close> is added to what was kept of them if and only if no
  kept cue \<open>k\<close> has \<open>|k.startFrame - c.startFrame| < W\<close> and \<open>k.priority >= c.priority\<close>;
  of two cues of equal priority within the window of each other the earlier one is kept
  and the later one discarded, and a kept cue suppresses every later cue of its priority
  within its window.
\<close>

theorem filterOverlappingSounds_greedy:
  "filterOverlappingSounds triggers W = greedyResolver W [] triggers \<and>
   filterOverlappingSounds (triggers @ [c]) W =
     (if (\<exists>k \<in> set (filterOverlappingSounds triggers W).
            \<bar>startFrame k - startFrame c\<bar> < W \<and> priority k \<ge> priority c)
      then filterOverlappingSounds triggers W
      else filterOverlappingSounds triggers W @ [c]) \<and>
   (priority a = priority b \<and> \<bar>startFrame a - startFrame b\<bar> < W \<longrightarrow>
      filterOverlappingSounds [a, b] W = [a]) \<and>
   (a \<in> set (filterOverlappingSounds triggers W) \<and> priority a = priority b \<and>
    \<bar>startFrame a - startFrame b\<bar> < W \<longrightarrow>
      filterOverlappingSounds (triggers @ [b]) W = filterOverlappingSounds triggers W)"
proof (intro conjI impI)
  show "filterOverlappingSounds triggers W = greedyResolver W [] triggers"
    by (simp add: filter_fold fold_greedy)
  show "filterOverlappingSounds (triggers @ [c]) W =
     (if (\<exists>k \<in> set (filterOverlappingSounds triggers W).
            \<bar>startFrame k - startFrame c\<bar> < W \<and> priority k \<ge> priority c)
      then filterOverlappingSounds triggers W
      else filterOverlappingSounds triggers W @ [c])"
    by (simp add: filter_snoc filterStep_def hasConflict_iff)
  show "filterOverlappingSounds [a, b] W = [a]"
    if "priority a = priority b \<and> \<bar>startFrame a - startFrame b\<bar> < W"
    using that by (simp add: filterOverlappingSounds_def hasConflict_def)
  show "filterOverlappingSounds (triggers @ [b]) W = filterOverlappingSounds triggers W"
    if "a \<in> set (filterOverlappingSounds triggers W) \<and> priority a = priority b \<and>
        \<bar>startFrame a - startFrame b\<bar> < W"
  proof -
    from that have "hasConflict W (filterOverlappingSounds triggers W) b"
      by (auto simp: hasConflict_iff)
    then show ?thesis by (simp add: filter_snoc filterStep_def)
  qed
qed

theorem filterOverlappingSounds_greedy_witness:
  "filterOverlappingSounds
     [cueAt (SOUND_EFFECTS piece_capture ! 0) 100, cueAt (SOUND_EFFECTS piece_capture ! 3) 105] 15 =
   greedyResolver 15 []
     [cueAt (SOUND_EFFECTS piece_capture ! 0) 100, cueAt (SOUND_EFFECTS piece_capture ! 3) 105] \<and>
   filterOverlappingSounds
     [cueAt (SOUND_EFFECTS piece_capture ! 0) 100, cueAt (SOUND_EFFECTS piece_capture ! 3) 105] 15 =
   [cueAt (SOUND_EFFECTS piece_capture ! 0) 100]"
  using filterOverlappingSounds_greedy
    [of "[cueAt (SOUND_EFFECTS piece_capture ! 0) 100, cueAt (SOUND_EFFECTS piece_capture ! 3) 105]"
        15 "cueAt (SOUND_EFFECTS piece_capture ! 0) 100"
        "cueAt (SOUND_EFFECTS piece_capture ! 0) 100" "cueAt (SOUND_EFFECTS piece_capture ! 3) 105"]
  by (simp add: cueAt_def)

text \<open>
  C10. \<^verbatim>\<open>filterOverlappingSounds\<close> is idempotent: filtering its own output with the
  same window changes nothing.
\<close>

theorem filterOverlappingSounds_idempotent:
  "filterOverlappingSounds (filterOverlappingSounds xs W) W = filterOverlappingSounds xs W"
proof -
  have "conflictFree W (filterOverlappingSounds xs W)"
    unfolding filter_fold by (rule conflictFree_fold) (simp add: conflictFree_def)
  then show ?thesis
    using fold_conflictFree_id[of W "[]" "filterOverlappingSounds xs W"] by (simp add: filter_fold)
qed

theorem filterOverlappingSounds_idempotent_witness:
  "filterOverlappingSounds
     (filterOverlappingSounds
        [cueAt (SOUND_EFFECTS special_moves ! 0) 105, cueAt (SOUND_EFFECTS piece_capture ! 0) 100] 15) 15 =
   [cueAt (SOUND_EFFECTS special_moves ! 0) 105]"
  using filterOverlappingSounds_idempotent
    [of "[cueAt (SOUND_EFFECTS special_moves ! 0) 105, cueAt (SOUND_EFFECTS piece_capture ! 0) 100]" 15]
  by (simp add: filterOverlappingSounds_def hasConflict_def cueAt_def)

section \<open>The final sort\<close>

lemma trigLe_iff:
  "trigLe a b \<longleftrightarrow>
   startFrame a < startFrame b \<or> (startFrame a = startFrame b \<and> priority b \<le> priority a)"
  by (auto simp: trigLe_def compareTriggers_def)

lemma trigLe_trans: "trigLe a b \<Longrightarrow> trigLe b c \<Longrightarrow> trigLe a c"
  by (auto simp: trigLe_iff)

lemma trigLe_total: "\<not> trigLe a b \<Longrightarrow> trigLe b a"
  by (auto simp: trigLe_iff)

lemma set_insertSorted: "set (insertSorted cmp x ys) = insert x (set ys)"
  by (induction ys) auto

lemma mset_insertSorted: "mset (insertSorted cmp x ys) = add_mset x (mset ys)"
  by (induction ys) auto

lemma mset_sortWith: "mset (sortWith cmp xs) = mset xs"
  by (induction xs) (simp_all add: sortWith_def mset_insertSorted)

lemma sorted_insertSorted:
  "sorted_wrt trigLe ys \<Longrightarrow> sorted_wrt trigLe (insertSorted compareTriggers x ys)"
proof (induction ys)
  case Nil
  then show ?case by simp
next
  case (Cons y ys)
  show ?case
  proof (cases "compareTriggers x y \<le> 0")
    case True
    then have "trigLe x y" by (simp add: trigLe_def)
    with Cons.prems show ?thesis using True by (auto intro: trigLe_trans)
  next
    case False
    then have "trigLe y x" using trigLe_total by (simp add: trigLe_def)
    with Cons show ?thesis using False by (auto simp: set_insertSorted)
  qed
qed

lemma sorted_sortWith: "sorted_wrt trigLe (sortWith compareTriggers xs)"
  by (induction xs) (simp_all add: sortWith_def sorted_insertSorted)

lemma adjacent_sorted:
  "sorted_wrt R xs \<Longrightarrow> Suc i < length xs \<Longrightarrow> R (xs ! i) (xs ! Suc i)"
  by (simp add: sorted_wrt_iff_nth_less)

section \<open>The cues of one move\<close>

lemma mapMasterVolume_Some:
  "mapMasterVolume s (map Some xs) = Inr (map (applyMasterVolume s) xs)"
  by (induction xs) simp_all

lemma analyze_cues:
  "analyzeMoveForSounds a s r =
     (if \<not> enabled s then Inr []
      else Inr (map (applyMasterVolume s) (specialCues a s @ captureCues a s @ crowdCues a s r)))"
proof (cases "enabled s")
  case False
  then show ?thesis by (simp add: analyzeMoveForSounds_def)
next
  case True
  define sounds1 where "sounds1 =
     (if specialMovesEnabled s then
        (if isCheckmate a then push_if_found [] (getSoundEffect ''checkmate'')
         else if isCheck a then push_if_found [] (getSoundEffect ''check'')
         else if isCastle a then push_if_found [] (getSoundEffect ''castle'')
         else if isPromotion a then push_if_found [] (getSoundEffect ''promotion'')
         else [])
      else [])"
  define sounds2 where "sounds2 =
     (case capturedPiece a of
        Some piece \<Rightarrow>
          if capturesEnabled s \<and> piece \<noteq> [] then sounds1 @ [getCaptureSound piece]
          else sounds1
      | None \<Rightarrow> sounds1)"
  define sounds3 where "sounds3 =
     (case (evaluation a, previousEvaluation a) of
        (Some ev, Some prev) \<Rightarrow>
          if crowdEnabled s then
            (let evalChange = \<bar>ev - prev\<bar> in
             if evalChange > 200 then sounds2 @ [getRandomSound r crowd_reaction]
             else if ev - prev > 150 then
               push_if_found sounds2
                 (find (\<lambda>s. includes_str (ident s) ''applause'') (SOUND_EFFECTS crowd_reaction))
             else sounds2)
          else sounds2
      | _ \<Rightarrow> sounds2)"
  have a: "analyzeMoveForSounds a s r = mapMasterVolume s sounds3"
    unfolding analyzeMoveForSounds_def sounds1_def sounds2_def sounds3_def Let_def
    using True by (simp only: not_True_eq_False if_False)
  have s1: "sounds1 = map Some (specialCues a s)"
    by (simp add: sounds1_def specialCues_def lookups push_if_found_def del: SOUND_EFFECTS.simps)
  have s2: "sounds2 = map Some (specialCues a s @ captureCues a s)"
    by (simp add: sounds2_def s1 captureCues_def getCaptureSound_tier
        split: option.splits del: SOUND_EFFECTS.simps)
  have s3: "sounds3 = map Some (specialCues a s @ captureCues a s @ crowdCues a s r)"
    unfolding sounds3_def s2 crowdCues_def find_applause getRandomSound_crowd
    by (simp add: push_if_found_def Let_def split: option.splits del: SOUND_EFFECTS.simps)
  show ?thesis
    using True by (simp only: a s3 mapMasterVolume_Some if_False not_True_eq_False simp_thms)
qed

lemma category_applyMasterVolume: "category (applyMasterVolume s x) = category x"
  by (simp add: applyMasterVolume_def)

lemma ident_applyMasterVolume: "ident (applyMasterVolume s x) = ident x"
  by (simp add: applyMasterVolume_def)

lemma specialCues_category: "x \<in> set (specialCues a s) \<Longrightarrow> category x = special_moves"
  by (auto simp: specialCues_def split: if_splits)

lemma captureCues_category: "x \<in> set (captureCues a s) \<Longrightarrow> category x = piece_capture"
  using captureTier_less
  by (auto simp: captureCues_def category_piece_capture
      split: option.splits if_splits simp del: SOUND_EFFECTS.simps)

lemma crowdCues_category: "x \<in> set (crowdCues a s r) \<Longrightarrow> category x = crowd_reaction"
  by (auto simp: crowdCues_def category_crowd
      split: option.splits if_splits simp del: SOUND_EFFECTS.simps)

lemma filter_category_same:
  "\<forall>x \<in> set xs. category x = c \<Longrightarrow>
   filter (\<lambda>x. category x = c) (map (applyMasterVolume s) xs) = map (applyMasterVolume s) xs"
  by (induction xs) (simp_all add: category_applyMasterVolume)

lemma filter_category_other:
  "\<forall>x \<in> set xs. category x = c \<Longrightarrow> c \<noteq> c' \<Longrightarrow>
   filter (\<lambda>x. category x = c') (map (applyMasterVolume s) xs) = []"
  by (induction xs) (simp_all add: category_applyMasterVolume)

lemma filter_special:
  "filter (\<lambda>x. category x = special_moves)
     (map (applyMasterVolume s) (specialCues a s @ captureCues a s @ crowdCues a s r)) =
   map (applyMasterVolume s) (specialCues a s)"
  using filter_category_same[of "specialCues a s" special_moves s]
    filter_category_other[of "captureCues a s" piece_capture special_moves s]
    filter_category_other[of "crowdCues a s r" crowd_reaction special_moves s]
  by (simp add: specialCues_category captureCues_category crowdCues_category)

lemma filter_capture:
  "filter (\<lambda>x. category x = piece_capture)
     (map (applyMasterVolume s) (specialCues a s @ captureCues a s @ crowdCues a s r)) =
   map (applyMasterVolume s) (captureCues a s)"
  using filter_category_same[of "captureCues a s" piece_capture s]
    filter_category_other[of "specialCues a s" special_moves piece_capture s]
    filter_category_other[of "crowdCues a s r" crowd_reaction piece_capture s]
  by (simp add: specialCues_category captureCues_category crowdCues_category)

lemma filter_crowd:
  "filter (\<lambda>x. category x = crowd_reaction)
     (map (applyMasterVolume s) (specialCues a s @ captureCues a s @ crowdCues a s r)) =
   map (applyMasterVolume s) (crowdCues a s r)"
  using filter_category_same[of "crowdCues a s r" crowd_reaction s]
    filter_category_other[of "specialCues a s" special_moves crowd_reaction s]
    filter_category_other[of "captureCues a s" piece_capture crowd_reaction s]
  by (simp add: specialCues_category captureCues_category crowdCues_category)


section \<open>The loop over the moves\<close>






section \<open>The schedule of the concrete game\<close>

lemmas run_defs =
  generateSoundSchedule_def replayChess_def quickMate_def quickMate_moves_def
  quickMate_evaluations_def parseMoveForAnalysis_def analyzeMoveForSounds_def evaluationAt_def
  lookups push_if_found_def getCaptureSound_def toLowerCase_def toLowerCase_char_def at_index_def
  getRandomSound_def DEFAULT_SOUND_SETTINGS_def calculateSoundFrameTiming_def stampSounds_def
  sortWith_def compareTriggers_def applyMasterVolume_def or_default_def enumerate_eq_zip
  cueAt_def gaspCue_def mateCue_def pawnCue_def

lemma quickMate_loop:
  "forEachMove (replayChess quickMate) [] DEFAULT_SOUND_SETTINGS 30 (\<lambda>i. 0) quickMate_moves 0
     (newChess (replayChess quickMate)) None [] = Inr [mateCue, pawnCue]"
  by (simp add: run_defs)

lemma quickMate_schedule:
  "generateSoundSchedule (replayChess quickMate) quickMate_moves [] DEFAULT_SOUND_SETTINGS 30 (\<lambda>i. 0) =
   Inr [mateCue, pawnCue]"
  by (simp add: run_defs)

lemma quickMate_schedule_evaluated:
  "generateSoundSchedule (replayChess quickMate) quickMate_moves quickMate_evaluations
     DEFAULT_SOUND_SETTINGS 30 (\<lambda>i. 0) =
   Inr [gaspCue, mateCue, pawnCue]"
  by (simp add: run_defs)

lemma cue_values:
  "startFrame gaspCue = 180" "priority gaspCue = 4"
  "startFrame mateCue = 210" "priority mateCue = 5"
  "startFrame pawnCue = 215" "priority pawnCue = 3"
  "category (soundEffect gaspCue) = crowd_reaction"
  "category (soundEffect mateCue) = special_moves"
  "category (soundEffect pawnCue) = piece_capture"
  by (simp_all add: gaspCue_def mateCue_def pawnCue_def cueAt_def applyMasterVolume_def)

section \<open>The schedule builder\<close>

text \<open>
  C4. Every schedule \<^verbatim>\<open>generateSoundSchedule\<close> returns is ordered: of two adjacent
  cues the first starts no later than the second, and when they start at the same frame
  the first has the higher or the same priority.
\<close>

theorem generateSoundSchedule_ordered:
  assumes "generateSoundSchedule api moves evaluations settings fps rnd = Inr schedule"
    and "Suc i < length schedule"
  shows "startFrame (schedule ! i) \<le> startFrame (schedule ! Suc i) \<and>
         (startFrame (schedule ! i) = startFrame (schedule ! Suc i) \<longrightarrow>
            priority (schedule ! i) \<ge> priority (schedule ! Suc i))"
proof -
  from assms(1) obtain triggers where "schedule = sortWith compareTriggers triggers"
    by (auto simp: generateSoundSchedule_def split: sum.splits)
  then have "sorted_wrt trigLe schedule" by (simp add: sorted_sortWith)
  from adjacent_sorted[OF this assms(2)] show ?thesis
    by (auto simp: trigLe_iff)
qed

theorem generateSoundSchedule_ordered_witness:
  "generateSoundSchedule (replayChess quickMate) quickMate_moves quickMate_evaluations
     DEFAULT_SOUND_SETTINGS 30 (\<lambda>i. 0) = Inr [gaspCue, mateCue, pawnCue] \<and>
   startFrame gaspCue \<le> startFrame mateCue \<and> startFrame mateCue \<le> startFrame pawnCue"
  using generateSoundSchedule_ordered[OF quickMate_schedule_evaluated, of 0]
    generateSoundSchedule_ordered[OF quickMate_schedule_evaluated, of 1]
    quickMate_schedule_evaluated
  by simp

text \<open>
  C1, as the code has it. \<^verbatim>\<open>generateSoundSchedule\<close> does not run the overlap filter:
  the schedule it returns is the sorted list of all the triggers its loop accumulated,
  each as often as it was produced, none suppressed. \<^verbatim>\<open>filterOverlappingSounds\<close> is a
  separate function for the caller to apply.
\<close>

theorem generateSoundSchedule_keeps_every_cue:
  assumes "generateSoundSchedule api moves evaluations settings fps rnd = Inr schedule"
  shows "\<exists>triggers.
           forEachMove api evaluations settings fps rnd moves 0 (newChess api) None [] = Inr triggers \<and>
           schedule = sortWith compareTriggers triggers \<and>
           mset schedule = mset triggers"
  using assms by (auto simp: generateSoundSchedule_def mset_sortWith split: sum.splits)

theorem generateSoundSchedule_keeps_every_cue_witness:
  "\<exists>triggers.
     forEachMove (replayChess quickMate) [] DEFAULT_SOUND_SETTINGS 30 (\<lambda>i. 0) quickMate_moves 0
       (newChess (replayChess quickMate)) None [] = Inr triggers \<and>
     [mateCue, pawnCue] = sortWith compareTriggers triggers \<and>
     mset [mateCue, pawnCue] = mset triggers"
  by (rule generateSoundSchedule_keeps_every_cue[OF quickMate_schedule])

text \<open>
  The claim C1 as stated fails: in the game \<open>quickMate\<close> the mating move produces the
  checkmate cue (priority 5, frame 210) and then the capture cue (priority 3, frame 215);
  the returned schedule holds both, though the second lies within the window 15 of the
  first, and the filter would drop it.
\<close>

theorem generateSoundSchedule_unfiltered_counterexample:
  "forEachMove (replayChess quickMate) [] DEFAULT_SOUND_SETTINGS 30 (\<lambda>i. 0) quickMate_moves 0
     (newChess (replayChess quickMate)) None [] = Inr [mateCue, pawnCue] \<and>
   generateSoundSchedule (replayChess quickMate) quickMate_moves [] DEFAULT_SOUND_SETTINGS 30 (\<lambda>i. 0) =
     Inr [mateCue, pawnCue] \<and>
   \<bar>startFrame mateCue - startFrame pawnCue\<bar> < 15 \<and>
   priority mateCue \<ge> priority pawnCue \<and>
   filterOverlappingSounds [mateCue, pawnCue] 15 = [mateCue]"
  by (simp add: quickMate_loop quickMate_schedule cue_values filterOverlappingSounds_def hasConflict_def)






section \<open>The classifier\<close>

lemma specialCues_ident:
  "map ident (specialCues a s) =
     (if specialMovesEnabled s then
        (if isCheckmate a then [''checkmate'']
         else if isCheck a then [''check'']
         else if isCastle a then [''castle'']
         else if isPromotion a then [''promotion'']
         else [])
      else [])"
  by (simp add: specialCues_def)

lemma map_ident_applyMasterVolume:
  "map ident (map (applyMasterVolume s) xs) = map ident xs"
  by (simp add: ident_applyMasterVolume)

text \<open>
  C6, as the code has it. \<^verbatim>\<open>analyzeMoveForSounds\<close> always returns, with at most one
  special-move cue. With \<open>enabled\<close> and \<open>specialMovesEnabled\<close> both true the special-move
  cue is chosen by the precedence checkmate, check, castle, promotion: the checkmate cue
  alone for a checkmate (never the check cue), the check cue for a check that is no
  checkmate, the castle cue for a castle that is no check, the promotion cue for a
  promotion that is none of these, and none otherwise. With \<open>enabled\<close> false the function
  returns no cue at all.
\<close>

theorem analyzeMoveForSounds_special_precedence:
  "\<exists>sounds. analyzeMoveForSounds analysis settings r = Inr sounds \<and>
     length (filter (\<lambda>s. category s = special_moves) sounds) \<le> 1 \<and>
     (enabled settings \<and> specialMovesEnabled settings \<longrightarrow>
        map ident (filter (\<lambda>s. category s = special_moves) sounds) =
          (if isCheckmate analysis then [''checkmate'']
           else if isCheck analysis then [''check'']
           else if isCastle analysis then [''castle'']
           else if isPromotion analysis then [''promotion'']
           else [])) \<and>
     (\<not> enabled settings \<longrightarrow> sounds = [])"
proof (cases "enabled settings")
  case False
  then show ?thesis by (simp add: analyze_cues)
next
  case True
  let ?sounds = "map (applyMasterVolume settings)
      (specialCues analysis settings @ captureCues analysis settings @ crowdCues analysis settings r)"
  have run: "analyzeMoveForSounds analysis settings r = Inr ?sounds"
    using True by (simp add: analyze_cues)
  have sp: "filter (\<lambda>s. category s = special_moves) ?sounds =
      map (applyMasterVolume settings) (specialCues analysis settings)"
    by (rule filter_special)
  have ids: "map ident (filter (\<lambda>s. category s = special_moves) ?sounds) =
      map ident (specialCues analysis settings)"
    by (simp only: sp map_ident_applyMasterVolume)
  have "length (filter (\<lambda>s. category s = special_moves) ?sounds) \<le> 1"
    by (simp only: sp length_map) (simp add: specialCues_def)
  moreover have "specialMovesEnabled settings \<longrightarrow>
      map ident (filter (\<lambda>s. category s = special_moves) ?sounds) =
          (if isCheckmate analysis then [''checkmate'']
           else if isCheck analysis then [''check'']
           else if isCastle analysis then [''castle'']
           else if isPromotion analysis then [''promotion'']
           else [])"
    by (simp only: ids specialCues_ident) simp
  ultimately show ?thesis using run True by blast
qed

theorem analyzeMoveForSounds_special_precedence_witness:
  "isCheckmate mateAnalysis \<and> isCheck mateAnalysis \<and>
   (\<exists>sounds. analyzeMoveForSounds mateAnalysis DEFAULT_SOUND_SETTINGS 0 = Inr sounds \<and>
      map ident (filter (\<lambda>s. category s = special_moves) sounds) = [''checkmate''])"
proof -
  have e: "enabled DEFAULT_SOUND_SETTINGS \<and> specialMovesEnabled DEFAULT_SOUND_SETTINGS"
    by (simp add: DEFAULT_SOUND_SETTINGS_def)
  have m: "isCheckmate mateAnalysis \<and> isCheck mateAnalysis"
    by (simp add: mateAnalysis_def)
  from analyzeMoveForSounds_special_precedence[of mateAnalysis DEFAULT_SOUND_SETTINGS 0]
  obtain sounds where "analyzeMoveForSounds mateAnalysis DEFAULT_SOUND_SETTINGS 0 = Inr sounds"
    and "enabled DEFAULT_SOUND_SETTINGS \<and> specialMovesEnabled DEFAULT_SOUND_SETTINGS \<longrightarrow>
        map ident (filter (\<lambda>s. category s = special_moves) sounds) =
          (if isCheckmate mateAnalysis then [''checkmate'']
           else if isCheck mateAnalysis then [''check'']
           else if isCastle mateAnalysis then [''castle'']
           else if isPromotion mateAnalysis then [''promotion'']
           else [])"
    by blast
  with e m show ?thesis by auto
qed

text \<open>
  The claim C6 as stated fails: with \<open>specialMovesEnabled\<close> true and \<open>enabled\<close> false, a
  checkmate yields no cue.
\<close>

theorem analyzeMoveForSounds_special_counterexample:
  "specialMovesEnabled (DEFAULT_SOUND_SETTINGS\<lparr>enabled := False\<rparr>) \<and>
   isCheckmate mateAnalysis \<and>
   analyzeMoveForSounds mateAnalysis (DEFAULT_SOUND_SETTINGS\<lparr>enabled := False\<rparr>) 0 = Inr []"
  by (simp add: analyzeMoveForSounds_def DEFAULT_SOUND_SETTINGS_def mateAnalysis_def)

lemma capture_ident:
  "ident (SOUND_EFFECTS piece_capture ! captureTier code) =
     (let piece = toLowerCase code in
      if piece = ''p'' then ''capture-pawn''
      else if piece = ''n'' \<or> piece = ''b'' then ''capture-minor''
      else if piece = ''r'' then ''capture-rook''
      else if piece = ''q'' then ''capture-queen''
      else ''capture-pawn'')"
  by (simp add: captureTier_def Let_def)

text \<open>
  C7, as the code has it. \<^verbatim>\<open>getCaptureSound\<close> lowers the case of the piece code first.
  For every code it returns a sound of the category \<open>piece_capture\<close>, never
  \<^verbatim>\<open>undefined\<close>: the pawn sound when the lowered code is \<open>p\<close>, the minor-piece sound when
  it is \<open>n\<close> or \<open>b\<close>, the rook sound when it is \<open>r\<close>, the queen sound when it is \<open>q\<close>, and
  the pawn sound for every other code. So with \<open>enabled\<close> and \<open>capturesEnabled\<close>, an event
  with a non-empty captured-piece code yields exactly one capture cue, that sound with
  the master volume applied; and \<^verbatim>\<open>analyzeMoveForSounds\<close> returns for every event,
  settings and draw: it never throws.
\<close>

theorem getCaptureSound_total:
  "(\<exists>e. getCaptureSound code = Some e \<and> category e = piece_capture \<and>
        ident e =
          (let piece = toLowerCase code in
           if piece = ''p'' then ''capture-pawn''
           else if piece = ''n'' \<or> piece = ''b'' then ''capture-minor''
           else if piece = ''r'' then ''capture-rook''
           else if piece = ''q'' then ''capture-queen''
           else ''capture-pawn'') \<and>
        (enabled settings \<and> capturesEnabled settings \<and>
         capturedPiece analysis = Some code \<and> code \<noteq> [] \<longrightarrow>
           (\<exists>sounds. analyzeMoveForSounds analysis settings r = Inr sounds \<and>
              filter (\<lambda>s. category s = piece_capture) sounds = [applyMasterVolume settings e]))) \<and>
   (\<exists>sounds. analyzeMoveForSounds analysis settings r = Inr sounds)"
proof (intro conjI)
  let ?e = "SOUND_EFFECTS piece_capture ! captureTier code"
  have g: "getCaptureSound code = Some ?e" by (rule getCaptureSound_tier)
  have c: "category ?e = piece_capture"
    using captureTier_less by (rule category_piece_capture)
  have i: "ident ?e =
          (let piece = toLowerCase code in
           if piece = ''p'' then ''capture-pawn''
           else if piece = ''n'' \<or> piece = ''b'' then ''capture-minor''
           else if piece = ''r'' then ''capture-rook''
           else if piece = ''q'' then ''capture-queen''
           else ''capture-pawn'')"
    by (rule capture_ident)
  have a: "\<exists>sounds. analyzeMoveForSounds analysis settings r = Inr sounds \<and>
              filter (\<lambda>s. category s = piece_capture) sounds = [applyMasterVolume settings ?e]"
    if h: "enabled settings \<and> capturesEnabled settings \<and>
         capturedPiece analysis = Some code \<and> code \<noteq> []"
  proof -
    have cc: "captureCues analysis settings = [?e]"
      using h by (simp add: captureCues_def del: SOUND_EFFECTS.simps)
    have "filter (\<lambda>s. category s = piece_capture)
        (map (applyMasterVolume settings)
          (specialCues analysis settings @ captureCues analysis settings @
           crowdCues analysis settings r)) =
        map (applyMasterVolume settings) (captureCues analysis settings)"
      by (rule filter_capture)
    also have "\<dots> = [applyMasterVolume settings ?e]"
      by (simp only: cc list.map)
    finally have "filter (\<lambda>s. category s = piece_capture)
        (map (applyMasterVolume settings)
          (specialCues analysis settings @ captureCues analysis settings @
           crowdCues analysis settings r)) = [applyMasterVolume settings ?e]" .
    moreover have "analyzeMoveForSounds analysis settings r =
        Inr (map (applyMasterVolume settings)
          (specialCues analysis settings @ captureCues analysis settings @
           crowdCues analysis settings r))"
      using h by (simp add: analyze_cues)
    ultimately show ?thesis by blast
  qed
  from g c i a show "\<exists>e. getCaptureSound code = Some e \<and> category e = piece_capture \<and>
        ident e =
          (let piece = toLowerCase code in
           if piece = ''p'' then ''capture-pawn''
           else if piece = ''n'' \<or> piece = ''b'' then ''capture-minor''
           else if piece = ''r'' then ''capture-rook''
           else if piece = ''q'' then ''capture-queen''
           else ''capture-pawn'') \<and>
        (enabled settings \<and> capturesEnabled settings \<and>
         capturedPiece analysis = Some code \<and> code \<noteq> [] \<longrightarrow>
           (\<exists>sounds. analyzeMoveForSounds analysis settings r = Inr sounds \<and>
              filter (\<lambda>s. category s = piece_capture) sounds = [applyMasterVolume settings e]))"
    by blast
  show "\<exists>sounds. analyzeMoveForSounds analysis settings r = Inr sounds"
    by (simp add: analyze_cues)
qed

theorem getCaptureSound_total_witness:
  "\<exists>e. getCaptureSound ''x'' = Some e \<and> ident e = ''capture-pawn'' \<and>
     (\<exists>sounds. analyzeMoveForSounds (mateAnalysis\<lparr>capturedPiece := Some ''x''\<rparr>)
                  DEFAULT_SOUND_SETTINGS 0 = Inr sounds \<and>
        filter (\<lambda>s. category s = piece_capture) sounds =
          [applyMasterVolume DEFAULT_SOUND_SETTINGS e])"
proof -
  have h: "enabled DEFAULT_SOUND_SETTINGS \<and> capturesEnabled DEFAULT_SOUND_SETTINGS \<and>
      capturedPiece (mateAnalysis\<lparr>capturedPiece := Some ''x''\<rparr>) = Some ''x'' \<and> ''x'' \<noteq> []"
    by (simp add: DEFAULT_SOUND_SETTINGS_def)
  have l: "toLowerCase ''x'' = ''x''"
    by (simp add: toLowerCase_def toLowerCase_char_def)
  from getCaptureSound_total
    [of "''x''" DEFAULT_SOUND_SETTINGS "mateAnalysis\<lparr>capturedPiece := Some ''x''\<rparr>" 0]
  obtain e where "getCaptureSound ''x'' = Some e"
    and "ident e =
          (let piece = toLowerCase ''x'' in
           if piece = ''p'' then ''capture-pawn''
           else if piece = ''n'' \<or> piece = ''b'' then ''capture-minor''
           else if piece = ''r'' then ''capture-rook''
           else if piece = ''q'' then ''capture-queen''
           else ''capture-pawn'')"
    and "enabled DEFAULT_SOUND_SETTINGS \<and> capturesEnabled DEFAULT_SOUND_SETTINGS \<and>
         capturedPiece (mateAnalysis\<lparr>capturedPiece := Some ''x''\<rparr>) = Some ''x'' \<and> ''x'' \<noteq> [] \<longrightarrow>
           (\<exists>sounds. analyzeMoveForSounds (mateAnalysis\<lparr>capturedPiece := Some ''x''\<rparr>)
                        DEFAULT_SOUND_SETTINGS 0 = Inr sounds \<and>
              filter (\<lambda>s. category s = piece_capture) sounds =
                [applyMasterVolume DEFAULT_SOUND_SETTINGS e])"
    by blast
  with h l show ?thesis by (simp add: Let_def)
qed

text \<open>
  The claim C7 as stated fails: \<open>Q\<close> is a code other than \<open>p\<close>, \<open>n\<close>, \<open>b\<close>, \<open>r\<close>, \<open>q\<close>, and
  it selects the queen sound, not the pawn sound.
\<close>

theorem getCaptureSound_upper_case_counterexample:
  "''Q'' \<notin> set [''p'', ''n'', ''b'', ''r'', ''q''] \<and>
   map_option ident (getCaptureSound ''Q'') = Some ''capture-queen'' \<and>
   map_option ident (getCaptureSound ''p'') = Some ''capture-pawn''"
  by (simp add: getCaptureSound_def toLowerCase_def toLowerCase_char_def at_index_def
      char_of_def bit_Suc_0_iff bit_iff_odd)

text \<open>
  C8, as the code has it. With \<open>enabled\<close> and \<open>crowdEnabled\<close> both true and both
  evaluations present, an event whose evaluation is 220 above the previous one yields
  exactly one crowd-reaction cue, the one \<^verbatim>\<open>getRandomSound\<close> draws: the test
  \<open>|delta| > 200\<close> comes before the test \<open>delta > 150\<close>, so the cue is the library's
  crowd reaction at the drawn index and not the applause chosen without a draw.
\<close>

theorem analyzeMoveForSounds_magnitude_first:
  assumes "enabled settings" and "crowdEnabled settings"
    and "evaluation analysis = Some ev" and "previousEvaluation analysis = Some prev"
    and "ev - prev = 220"
  shows "\<exists>sounds pick.
           analyzeMoveForSounds analysis settings r = Inr sounds \<and>
           getRandomSound r crowd_reaction = Some pick \<and>
           filter (\<lambda>s. category s = crowd_reaction) sounds = [applyMasterVolume settings pick] \<and>
           ident pick =
             [''gasp-01'', ''gasp-02'', ''applause-01'', ''applause-02'', ''murmur'', ''cheer''] !
               (r mod 6)"
proof -
  let ?pick = "SOUND_EFFECTS crowd_reaction ! (r mod 6)"
  have cc: "crowdCues analysis settings r = [?pick]"
    using assms by (simp add: crowdCues_def del: SOUND_EFFECTS.simps)
  have "filter (\<lambda>s. category s = crowd_reaction)
        (map (applyMasterVolume settings)
          (specialCues analysis settings @ captureCues analysis settings @
           crowdCues analysis settings r)) =
        map (applyMasterVolume settings) (crowdCues analysis settings r)"
    by (rule filter_crowd)
  also have "\<dots> = [applyMasterVolume settings ?pick]"
    by (simp only: cc list.map)
  finally have f: "filter (\<lambda>s. category s = crowd_reaction)
        (map (applyMasterVolume settings)
          (specialCues analysis settings @ captureCues analysis settings @
           crowdCues analysis settings r)) = [applyMasterVolume settings ?pick]" .
  have run: "analyzeMoveForSounds analysis settings r =
        Inr (map (applyMasterVolume settings)
          (specialCues analysis settings @ captureCues analysis settings @
           crowdCues analysis settings r))"
    using assms(1) by (simp add: analyze_cues)
  have "r mod 6 < 6" by simp
  then have i: "ident ?pick =
      [''gasp-01'', ''gasp-02'', ''applause-01'', ''applause-02'', ''murmur'', ''cheer''] ! (r mod 6)"
    by (simp add: nth_Cons')
  from run f i getRandomSound_crowd[of r] show ?thesis by blast
qed

theorem analyzeMoveForSounds_magnitude_first_witness:
  "\<exists>sounds pick.
     analyzeMoveForSounds mateAnalysis DEFAULT_SOUND_SETTINGS 0 = Inr sounds \<and>
     getRandomSound 0 crowd_reaction = Some pick \<and>
     filter (\<lambda>s. category s = crowd_reaction) sounds = [applyMasterVolume DEFAULT_SOUND_SETTINGS pick] \<and>
     ident pick = ''gasp-01''"
proof -
  have h: "enabled DEFAULT_SOUND_SETTINGS" "crowdEnabled DEFAULT_SOUND_SETTINGS"
    "evaluation mateAnalysis = Some 250" "previousEvaluation mateAnalysis = Some 30"
    "(250::int) - 30 = 220"
    by (simp_all add: DEFAULT_SOUND_SETTINGS_def mateAnalysis_def)
  from analyzeMoveForSounds_magnitude_first[OF h, of 0] show ?thesis by simp
qed

text \<open>
  The claim C8 as stated fails: with \<open>crowdEnabled\<close> true, both evaluations present and
  220 apart, but \<open>enabled\<close> false, no crowd cue is selected.
\<close>

theorem analyzeMoveForSounds_magnitude_counterexample:
  "crowdEnabled (DEFAULT_SOUND_SETTINGS\<lparr>enabled := False\<rparr>) \<and>
   evaluation mateAnalysis = Some 250 \<and> previousEvaluation mateAnalysis = Some 30 \<and>
   analyzeMoveForSounds mateAnalysis (DEFAULT_SOUND_SETTINGS\<lparr>enabled := False\<rparr>) 0 = Inr []"
  by (simp add: analyzeMoveForSounds_def DEFAULT_SOUND_SETTINGS_def mateAnalysis_def)

end
